theory Spec2Isabelle
  imports Complex_Main "HOL-Library.Sublist" "HOL-Library.AList"
begin

section \<open>Python strings\<close>

text \<open>
  A Python \<open>str\<close> is modelled as a \<open>string\<close>, a list of 8-bit characters holding the
  text's UTF-8 bytes. The classification of characters (blank, digit, lower case) is the
  ASCII one: a byte above 127 is neither blank nor a digit and has no upper case.
\<close>

datatype py_error = ValueError | AttributeError | KeyError | RequestException

definition is_space :: "char \<Rightarrow> bool" where
  "is_space c = (let n = (of_char c :: nat) in (9 \<le> n \<and> n \<le> 13) \<or> (28 \<le> n \<and> n \<le> 32))"

definition is_digit :: "char \<Rightarrow> bool" where
  "is_digit c = (let n = (of_char c :: nat) in 48 \<le> n \<and> n \<le> 57)"

definition to_upper :: "char \<Rightarrow> char" where
  "to_upper c = (let n = (of_char c :: nat) in if 97 \<le> n \<and> n \<le> 122 then char_of (n - 32) else c)"

text \<open>\<open>s.strip()\<close>, \<open>s.upper()\<close>, \<open>s.isdigit()\<close> and \<open>sub in s\<close>.\<close>

definition strip :: "string \<Rightarrow> string" where
  "strip s = rev (dropWhile is_space (rev (dropWhile is_space s)))"

definition upper :: "string \<Rightarrow> string" where
  "upper s = map to_upper s"

definition isdigit :: "string \<Rightarrow> bool" where
  "isdigit s = (s \<noteq> [] \<and> list_all is_digit s)"

fun contains :: "string \<Rightarrow> string \<Rightarrow> bool" where
  "contains sub [] = (sub = [])"
| "contains sub (c # cs) = (prefix sub (c # cs) \<or> contains sub cs)"

text \<open>
  \<open>s.split(sep)\<close>: the text is cut at every occurrence of the separator, found from
  left to right without overlap; \<open>cur\<close> holds the piece being read. Python raises
  ValueError for an empty separator.
\<close>

function split_on :: "string \<Rightarrow> string \<Rightarrow> string \<Rightarrow> string list" where
  "split_on sep cur [] = [cur]"
| "split_on sep cur (c # cs) =
     (if prefix sep (c # cs) then cur # split_on sep [] (drop (length sep - 1) cs)
      else split_on sep (cur @ [c]) cs)"
  by pat_completeness auto
termination
  by (relation "measure (\<lambda>(sep, cur, s). length s)") auto

definition split :: "string \<Rightarrow> string \<Rightarrow> py_error + string list" where
  "split s sep = (if sep = [] then Inl ValueError else Inr (split_on sep [] s))"

text \<open>
  \<open>s.replace(old, new)\<close>: every occurrence of \<open>old\<close>, from left to right without
  overlap, becomes \<open>new\<close>; an empty \<open>old\<close> matches before every character and at
  the end.
\<close>

function replace_on :: "string \<Rightarrow> string \<Rightarrow> string \<Rightarrow> string" where
  "replace_on old new [] = []"
| "replace_on old new (c # cs) =
     (if prefix old (c # cs) then new @ replace_on old new (drop (length old - 1) cs)
      else c # replace_on old new cs)"
  by pat_completeness auto
termination
  by (relation "measure (\<lambda>(old, new, s). length s)") auto

definition replace :: "string \<Rightarrow> string \<Rightarrow> string \<Rightarrow> string" where
  "replace s old new =
     (if old = [] then new @ concat (map (\<lambda>c. c # new) s) else replace_on old new s)"

text \<open>
  Decimal digits, and the digit groups Python's \<open>int\<close> accepts: digits with single
  underscores between them.
\<close>

definition nat_of_digits :: "string \<Rightarrow> nat" where
  "nat_of_digits ds = foldl (\<lambda>a c. 10 * a + (of_char c - 48)) 0 ds"

definition digit_groups :: "string \<Rightarrow> nat option" where
  "digit_groups s =
     (let parts = split_on ''_'' [] s
      in if list_all isdigit parts then Some (nat_of_digits (concat parts)) else None)"

text \<open>
  \<open>int(s)\<close> for a string: blanks around the text are dropped, one sign is allowed,
  then the digit groups. Anything else raises ValueError.
\<close>

definition py_int :: "string \<Rightarrow> py_error + int" where
  "py_int s =
     (case strip s of
        [] \<Rightarrow> Inl ValueError
      | c # r \<Rightarrow>
          (if c = CHR ''-'' then
             (case digit_groups r of None \<Rightarrow> Inl ValueError | Some n \<Rightarrow> Inr (- int n))
           else if c = CHR ''+'' then
             (case digit_groups r of None \<Rightarrow> Inl ValueError | Some n \<Rightarrow> Inr (int n))
           else
             (case digit_groups (c # r) of None \<Rightarrow> Inl ValueError | Some n \<Rightarrow> Inr (int n))))"

text \<open>
  \<open>float(s)\<close> for a string. A Python float is modelled by the real number it holds, and
  the model reads the signed decimal integers: blanks around the text are dropped, one
  sign is allowed, then decimal digits. On these the model is exact as long as the values
  stay below \<open>2 ^ 53\<close>, where doubles hold every integer and add, subtract and compare
  them without rounding. Python's \<open>float\<close> also reads fractions, exponents, underscores,
  \<open>inf\<close> and \<open>nan\<close>; the model raises ValueError on them. No percentage string that
  \<open>parse_bet\<close> stores contains any of these (lemma \<open>parse_bet_percentages\<close> below).
\<close>

definition py_float :: "string \<Rightarrow> py_error + real" where
  "py_float s =
     (case strip s of
        [] \<Rightarrow> Inl ValueError
      | c # r \<Rightarrow>
          (if c = CHR ''-'' then
             (if isdigit r then Inr (- real (nat_of_digits r)) else Inl ValueError)
           else if c = CHR ''+'' then
             (if isdigit r then Inr (real (nat_of_digits r)) else Inl ValueError)
           else
             (if isdigit (c # r) then Inr (real (nat_of_digits (c # r))) else Inl ValueError)))"

section \<open>The data model\<close>

text \<open>
  The dictionaries of the program, one record per shape. \<open>markets\<close> is a Python dict
  from the market's label to its bets: an association list, in insertion order, where
  storing under a label that is present replaces the value in place
  (\<open>AList.update\<close>). \<open>scraped_date_range\<close> is \<open>None\<close> while the key is not in the
  dict: \<open>parse_game\<close> builds the game without it and the scraper adds it.
\<close>

record bet =
  team :: string
  odds :: string
  handle_pct :: string
  bets_pct :: string

record game =
  title :: string
  time :: string
  away_team :: string
  home_team :: string
  markets :: "(string \<times> bet list) list"
  scraped_date_range :: "string option"

section \<open>The fragments of a fetched page\<close>

text \<open>
  What the parser reads of the markup, as BeautifulSoup hands it over: \<open>find\<close> gives an
  element or \<open>None\<close>, \<open>find_all\<close> the elements in document order, \<open>.text\<close> an
  element's text.
  \<^item> a bet row (\<open>div.tb-sodd\<close>): the text of its \<open>div.tb-slipline\<close> and of its
    \<open>a.tb-odd-s\<close>, each if present, and the texts of all \<open>div\<close>s inside it;
  \<^item> a market container: its \<open>div.tb-se-head\<close> if present (with the text of the
    first \<open>div\<close> inside, if there is one) and its bet rows;
  \<^item> a game block (\<open>div.tb-se\<close>): its \<open>div.tb-se-title\<close> if present (with the
    texts of its \<open>h5\<close> and \<open>span\<close>, each if present) and, if present, the
    \<open>div.tb-market-wrap\<close> with its child \<open>div\<close>s.
\<close>

record bet_soup =
  tb_slipline :: "string option"
  tb_odd_s :: "string option"
  all_divs :: "string list"

record market_soup =
  tb_se_head :: "string option option"
  tb_sodd :: "bet_soup list"

record title_soup =
  h5 :: "string option"
  span :: "string option"

record game_soup =
  tb_se_title :: "title_soup option"
  tb_market_wrap :: "market_soup list option"

section \<open>The parser\<close>

text \<open>
  \<open>parse_bet\<close>, lines 245-286. The percentage tokens are the texts, stripped, that hold
  a \<open>%\<close> and are all digits once every \<open>%\<close> and every space is removed.
\<close>

definition is_percentage :: "string \<Rightarrow> bool" where
  "is_percentage text =
     (contains ''%'' text \<and> isdigit (replace (replace text ''%'' '''') '' '' ''''))"

definition percentages_of :: "string list \<Rightarrow> string list" where
  "percentages_of divs = filter is_percentage (map strip divs)"

definition parse_bet :: "bet_soup \<Rightarrow> bet option" where
  "parse_bet bet_soup =
     (case tb_slipline bet_soup of
        None \<Rightarrow> None
      | Some team_text \<Rightarrow>
          (case tb_odd_s bet_soup of
             None \<Rightarrow> None
           | Some odds_text \<Rightarrow>
               (let percentages = percentages_of (all_divs bet_soup)
                in if length percentages \<ge> 2
                   then Some \<lparr>team = strip team_text, odds = strip odds_text,
                           handle_pct = percentages ! 0, bets_pct = percentages ! 1\<rparr>
                   else Some \<lparr>team = strip team_text, odds = strip odds_text,
                           handle_pct = ''0%'', bets_pct = ''0%''\<rparr>)))"

text \<open>
  \<open>parse_market\<close>, lines 216-243. A header without a \<open>div\<close> inside makes
  \<open>header.find('div').text\<close> raise AttributeError, which the \<open>except\<close> turns into
  \<open>None\<close>.
\<close>

definition parse_market :: "market_soup \<Rightarrow> (string \<times> bet list) option" where
  "parse_market market_soup =
     (case tb_se_head market_soup of
        None \<Rightarrow> None
      | Some None \<Rightarrow> None
      | Some (Some head_text) \<Rightarrow>
          Some (strip head_text, List.map_filter parse_bet (tb_sodd market_soup)))"

text \<open>
  \<open>parse_game\<close>, lines 155-214. \<open>split_teams\<close> is the \<open>if\<close>/\<open>elif\<close>/\<open>else\<close> of
  lines 167-187 on the stripped title: \<open>Some (away, home)\<close>, or \<open>None\<close> where the
  source returns \<open>None\<close>.
\<close>

definition two_teams :: "py_error + string list \<Rightarrow> (string \<times> string) option" where
  "two_teams r =
     (case r of
        Inl e \<Rightarrow> None
      | Inr teams \<Rightarrow>
          (if length teams = 2 then Some (strip (teams ! 0), strip (teams ! 1)) else None))"

definition split_teams :: "string \<Rightarrow> (string \<times> string) option" where
  "split_teams title_text =
     (if contains '' @ '' title_text then two_teams (split title_text '' @ '')
      else if contains '' vs '' title_text then two_teams (split title_text '' vs '')
      else None)"

definition add_market :: "(string \<times> bet list) list \<Rightarrow> market_soup \<Rightarrow> (string \<times> bet list) list" where
  "add_market ms container =
     (case parse_market container of
        None \<Rightarrow> ms
      | Some (market_type, market_bets) \<Rightarrow> AList.update market_type market_bets ms)"

definition parse_game :: "game_soup \<Rightarrow> game option" where
  "parse_game game_soup =
     (case tb_se_title game_soup of
        None \<Rightarrow> None
      | Some title_elem \<Rightarrow>
          (case h5 title_elem of
             None \<Rightarrow> None
           | Some h5_text \<Rightarrow>
               (case span title_elem of
                  None \<Rightarrow> None
                | Some span_text \<Rightarrow>
                    (case split_teams (strip h5_text) of
                       None \<Rightarrow> None
                     | Some (away, home) \<Rightarrow>
                         (case tb_market_wrap game_soup of
                            None \<Rightarrow> None
                          | Some market_containers \<Rightarrow>
                              Some \<lparr>title = strip h5_text, time = strip span_text,
                                    away_team = away, home_team = home,
                                    markets = foldl add_market [] market_containers,
                                    scraped_date_range = None\<rparr>)))))"

section \<open>The scraper\<close>

text \<open>
  A request is the query part of the URL built on lines 93-96: page 1 carries
  \<open>tb_emt=0\<close> and no page number, a later page carries \<open>tb_page\<close>. The network is
  a function from the request to what lines 99-103 make of the answer: the game blocks of
  the page, or the exception raised on the way. \<open>requested\<close> records the requests in
  the order \<open>requests.get\<close> is called.
\<close>

record url =
  tb_eg :: nat
  tb_edate :: string
  tb_emt :: "nat option"
  tb_page :: "nat option"

definition page_url :: "nat \<Rightarrow> string \<Rightarrow> nat \<Rightarrow> url" where
  "page_url sport_id date_range page =
     (if page = 1
      then \<lparr>tb_eg = sport_id, tb_edate = date_range, tb_emt = Some 0, tb_page = None\<rparr>
      else \<lparr>tb_eg = sport_id, tb_edate = date_range, tb_emt = None, tb_page = Some page\<rparr>)"

type_synonym fetcher = "url \<Rightarrow> py_error + game_soup list"

record scraper =
  all_games_data :: "game list"
  requested :: "url list"

text \<open>The four \<open>break\<close>s of the page loop, named by the message printed before each.\<close>

datatype stop =
  No_games_found | No_new_games_found | Reached_maximum_page_limit | Error_scraping

text \<open>
  Lines 111-129, one turn of the loop over a page's game blocks; the state is
  \<open>(page_games, all_games_data)\<close>.
\<close>

definition same_game :: "game \<Rightarrow> game \<Rightarrow> bool" where
  "same_game existing game_data =
     (title existing = title game_data \<and> time existing = time game_data \<and>
      scraped_date_range existing = scraped_date_range game_data)"

definition add_game :: "string \<Rightarrow> game list \<times> game list \<Rightarrow> game_soup \<Rightarrow> game list \<times> game list" where
  "add_game date_range acc game_soup =
     (case parse_game game_soup of
        None \<Rightarrow> acc
      | Some parsed \<Rightarrow>
          (let game_data = parsed\<lparr>scraped_date_range := Some date_range\<rparr>;
               duplicate = list_ex (\<lambda>existing. same_game existing game_data) (snd acc)
           in if \<not> duplicate then (fst acc @ [game_data], snd acc @ [game_data]) else acc))"

text \<open>The \<open>while True\<close> loop of lines 91-147, from page \<open>page\<close> on.\<close>

function scrape_pages :: "fetcher \<Rightarrow> nat \<Rightarrow> string \<Rightarrow> nat \<Rightarrow> scraper \<Rightarrow> stop \<times> scraper" where
  "scrape_pages fetch sport_id date_range page s =
     (let s1 = s\<lparr>requested := requested s @ [page_url sport_id date_range page]\<rparr>
      in case fetch (page_url sport_id date_range page) of
           Inl e \<Rightarrow> (Error_scraping, s1)
         | Inr games \<Rightarrow>
             (if games = [] then (No_games_found, s1)
              else
                (let acc = foldl (add_game date_range) ([], all_games_data s1) games;
                     s2 = s1\<lparr>all_games_data := snd acc\<rparr>
                 in if fst acc = [] then (No_new_games_found, s2)
                    else if page + 1 > 20 then (Reached_maximum_page_limit, s2)
                    else scrape_pages fetch sport_id date_range (page + 1) s2)))"
  by pat_completeness auto
termination
  by (relation "measure (\<lambda>(fetch, sport_id, date_range, page, s). 21 - page)") auto

definition sport_configs :: "(string \<times> nat \<times> string list) list" where
  "sport_configs =
     [(''all_sports'', 0, [''today'', ''tomorrow'']),
      (''mlb'', 84240, [''today'', ''tomorrow'']),
      (''wnba'', 94682, [''today'', ''tomorrow'']),
      (''nba'', 42648, [''today'', ''tomorrow'']),
      (''nhl'', 42133, [''today'', ''tomorrow'']),
      (''mls'', 89345, [''today'']),
      (''ufc'', 9034, [''today'', ''tomorrow'']),
      (''nfl'', 88808, [''today'', ''tomorrow'']),
      (''ncaaf'', 87637, [''today'', ''tomorrow'']),
      (''ncaa_basketball'', 92483, [''today'', ''tomorrow'']),
      (''ncaa_womens_basketball'', 36647, [''today'', ''tomorrow'']),
      (''ncaa_baseball'', 41151, [''today'', ''tomorrow'']),
      (''ncaa_ice_hockey'', 84813, [''today'', ''tomorrow'']),
      (''premier_league'', 40253, [''today'']),
      (''champions_league'', 40685, [''today'']),
      (''europa_league'', 41410, [''today''])]"

definition scrape_range :: "fetcher \<Rightarrow> nat \<Rightarrow> scraper \<Rightarrow> string \<Rightarrow> scraper" where
  "scrape_range fetch sport_id s date_range = snd (scrape_pages fetch sport_id date_range 1 s)"

definition scrape_sport :: "fetcher \<Rightarrow> scraper \<Rightarrow> string \<times> nat \<times> string list \<Rightarrow> scraper" where
  "scrape_sport fetch s config =
     (case config of (sport_name, sport_id, date_ranges) \<Rightarrow>
        if sport_name = ''all_sports'' then s
        else foldl (scrape_range fetch sport_id) s date_ranges)"

definition scrape_run :: "fetcher \<Rightarrow> scraper" where
  "scrape_run fetch = foldl (scrape_sport fetch) \<lparr>all_games_data = [], requested = []\<rparr> sport_configs"

definition scrape_betting_splits :: "fetcher \<Rightarrow> game list" where
  "scrape_betting_splits fetch = all_games_data (scrape_run fetch)"

section \<open>The cache\<close>

text \<open>
  The two globals of lines 18-19. A \<open>datetime\<close> is its number of microseconds on the
  clock's time line, a \<open>timedelta\<close> a number of microseconds. \<open>now\<close> is what
  \<open>datetime.now()\<close> returns on line 28, \<open>now'\<close> what it returns on line 43.
\<close>

record cache =
  cached_games_data :: "game list"
  cache_timestamp :: "int option"

definition CACHE_DURATION_MINUTES :: int where
  "CACHE_DURATION_MINUTES = 30"

definition timedelta :: "int \<Rightarrow> int \<Rightarrow> int" where
  "timedelta minutes seconds = (minutes * 60 + seconds) * 1000000"

definition is_cache_expired :: "int \<Rightarrow> cache \<Rightarrow> bool" where
  "is_cache_expired now c =
     (case cache_timestamp c of
        None \<Rightarrow> True
      | Some t \<Rightarrow> now - t > timedelta CACHE_DURATION_MINUTES 0)"

text \<open>
  \<open>get_cached_or_fresh_data\<close>, lines 32-44, returns the games, the globals as it
  leaves them and the requests it sent, none when it answers from the cache.
\<close>

definition get_cached_or_fresh_data :: "fetcher \<Rightarrow> int \<Rightarrow> int \<Rightarrow> cache \<Rightarrow> game list \<times> cache \<times> url list" where
  "get_cached_or_fresh_data fetch now now' c =
     (if cached_games_data c \<noteq> [] \<and> \<not> is_cache_expired now c then (cached_games_data c, c, [])
      else
        (let run = scrape_run fetch;
             fresh_data = all_games_data run
         in (fresh_data, \<lparr>cached_games_data = fresh_data, cache_timestamp = Some now'\<rparr>,
             requested run)))"

section \<open>Analytics\<close>

text \<open>
  The dict that \<open>extract_all_bets\<close> builds for every bet, lines 296-303: the keys of
  the bet and five more. \<open>handle_vs_bets_diff\<close> and \<open>square_score\<close> are the keys
  that some analytics add afterwards; \<open>None\<close> is a key that is not in the dict.
\<close>

record bet_with_context = bet +
  game_title :: string
  game_time :: string
  away_team :: string
  home_team :: string
  market_type :: string
  handle_vs_bets_diff :: "real option"
  square_score :: "real option"

definition with_context :: "game \<Rightarrow> string \<Rightarrow> bet \<Rightarrow> bet_with_context" where
  "with_context g mt b =
     \<lparr>team = team b, odds = odds b, handle_pct = handle_pct b, bets_pct = bets_pct b,
      game_title = title g, game_time = time g,
      away_team = game.away_team g, home_team = game.home_team g,
      market_type = mt, handle_vs_bets_diff = None, square_score = None\<rparr>"

definition extract_all_bets :: "game list \<Rightarrow> bet_with_context list" where
  "extract_all_bets games =
     concat (map (\<lambda>g. concat (map (\<lambda>(mt, bets). map (with_context g mt) bets) (markets g))) games)"

definition parse_percentage :: "string \<Rightarrow> real" where
  "parse_percentage pct_str =
     (case py_float (replace pct_str ''%'' []) of Inl e \<Rightarrow> 0 | Inr v \<Rightarrow> v)"

text \<open>
  The text that line 319 replaces by \<open>-\<close> is, in the source file, the seven bytes
  \<open>C3 A2 CB 86 E2 80 99\<close>.
\<close>

definition minus_text :: string where
  "minus_text = [CHR 0xC3, CHR 0xA2, CHR 0xCB, CHR 0x86, CHR 0xE2, CHR 0x80, CHR 0x99]"

definition parse_odds :: "string \<Rightarrow> int" where
  "parse_odds odds_str =
     (case py_int (replace odds_str minus_text ''-'') of Inl e \<Rightarrow> 0 | Inr v \<Rightarrow> v)"

text \<open>
  \<open>sorted(xs, key=..., reverse=True)\<close>: Python's sort is stable, and with
  \<open>reverse=True\<close> elements of equal key keep their order, which is what reversing,
  sorting upwards with a stable sort and reversing again gives. With a key that reads an
  item of a dict, \<open>sorted\<close> raises KeyError when an element has no such item.
  \<open>xs[:n]\<close> counts a negative \<open>n\<close> from the end.
\<close>

definition sorted_reverse :: "('a \<Rightarrow> real) \<Rightarrow> 'a list \<Rightarrow> 'a list" where
  "sorted_reverse key xs = rev (sort_key key (rev xs))"

definition sorted_by_item :: "('a \<Rightarrow> real option) \<Rightarrow> 'a list \<Rightarrow> py_error + 'a list" where
  "sorted_by_item item xs =
     (if list_all (\<lambda>x. item x \<noteq> None) xs then Inr (sorted_reverse (\<lambda>x. the (item x)) xs)
      else Inl KeyError)"

definition slice_to :: "'a list \<Rightarrow> int \<Rightarrow> 'a list" where
  "slice_to xs n = (if 0 \<le> n then take (nat n) xs else take (length xs - nat (- n)) xs)"





definition rich_quick_step :: "bet_with_context list \<Rightarrow> bet_with_context \<Rightarrow> bet_with_context list" where
  "rich_quick_step rich_quick_bets b =
     (let odds_v = parse_odds (odds b);
          handle = parse_percentage (handle_pct b)
      in if odds_v \<ge> 400 \<and> handle \<ge> 30 then rich_quick_bets @ [b] else rich_quick_bets)"

definition get_rich_quick_scheme :: "game list \<Rightarrow> bet_with_context list" where
  "get_rich_quick_scheme games =
     (let all_bets = extract_all_bets games;
          rich_quick_bets = foldl rich_quick_step [] all_bets
      in sorted_reverse (\<lambda>x. parse_percentage (handle_pct x)) rich_quick_bets)"

definition square_step :: "bet_with_context list \<Rightarrow> bet_with_context \<Rightarrow> bet_with_context list" where
  "square_step square_bets b =
     (let handle = parse_percentage (handle_pct b);
          bets = parse_percentage (bets_pct b);
          score = bets - handle
      in if score > 0 then square_bets @ [b\<lparr>square_score := Some score\<rparr>] else square_bets)"

definition biggest_square_bets :: "game list \<Rightarrow> int \<Rightarrow> py_error + bet_with_context list" where
  "biggest_square_bets games limit =
     (let all_bets = extract_all_bets games;
          square_bets = foldl square_step [] all_bets
      in case sorted_by_item square_score square_bets of
           Inl e \<Rightarrow> Inl e
         | Inr sorted_square \<Rightarrow> Inr (slice_to sorted_square limit))"

section \<open>Sport filters\<close>

definition mlb_teams :: "string list" where
  "mlb_teams =
     [''Angels'', ''Astros'', ''Athletics'', ''Blue Jays'', ''Braves'', ''Brewers'',
      ''Cardinals'', ''Cubs'', ''Diamondbacks'', ''Dodgers'', ''Giants'', ''Guardians'',
      ''Indians'', ''Mariners'', ''Marlins'', ''Mets'', ''Nationals'', ''Orioles'',
      ''Padres'', ''Phillies'', ''Pirates'', ''Rangers'', ''Rays'', ''Red Sox'',
      ''Reds'', ''Rockies'', ''Royals'', ''Tigers'', ''Twins'', ''White Sox'', ''Yankees'',
      ''LAA'', ''HOU'', ''OAK'', ''TOR'', ''ATL'', ''MIL'', ''STL'', ''CHC'', ''ARI'', ''LAD'',
      ''SF'', ''CLE'', ''SEA'', ''MIA'', ''NYM'', ''WSN'', ''WAS'', ''BAL'', ''SD'', ''PHI'',
      ''PIT'', ''TEX'', ''TB'', ''BOS'', ''CIN'', ''COL'', ''KC'', ''DET'', ''MIN'', ''CWS'',
      ''CHW'', ''NYY'', ''NY'']"

definition team_lists :: "(string \<times> string list) list" where
  "team_lists =
     [(''mlb'',
       [''Angels'', ''Astros'', ''Athletics'', ''Blue Jays'', ''Braves'', ''Brewers'',
        ''Cardinals'', ''Cubs'', ''Diamondbacks'', ''Dodgers'', ''Giants'', ''Guardians'',
        ''Mariners'', ''Marlins'', ''Mets'', ''Nationals'', ''Orioles'', ''Padres'',
        ''Phillies'', ''Pirates'', ''Rangers'', ''Rays'', ''Red Sox'', ''Reds'', ''Rockies'',
        ''Royals'', ''Tigers'', ''Twins'', ''White Sox'', ''Yankees'',
        ''LAA'', ''HOU'', ''OAK'', ''TOR'', ''ATL'', ''MIL'', ''STL'', ''CHC'', ''ARI'', ''LAD'',
        ''SF'', ''CLE'', ''MIA'', ''NYM'', ''WSN'', ''WAS'', ''BAL'', ''SD'', ''PHI'',
        ''PIT'', ''TEX'', ''TB'', ''BOS'', ''CIN'', ''COL'', ''KC'', ''DET'', ''MIN'', ''CWS'',
        ''CHW'', ''NYY'']),
      (''nba'',
       [''Hawks'', ''Celtics'', ''Nets'', ''Hornets'', ''Bulls'', ''Cavaliers'', ''Mavericks'',
        ''Nuggets'', ''Pistons'', ''Warriors'', ''Rockets'', ''Pacers'', ''Clippers'', ''Lakers'',
        ''Grizzlies'', ''Heat'', ''Bucks'', ''Timberwolves'', ''Pelicans'', ''Knicks'',
        ''Thunder'', ''Magic'', ''76ers'', ''Suns'', ''Trail Blazers'', ''Kings'', ''Spurs'',
        ''Raptors'', ''Jazz'', ''Wizards'',
        ''ATL'', ''BOS'', ''BKN'', ''CHA'', ''CHI'', ''CLE'', ''DAL'', ''DEN'', ''DET'', ''GSW'',
        ''HOU'', ''IND'', ''LAC'', ''LAL'', ''MEM'', ''MIA'', ''MIL'', ''MIN'', ''NOP'', ''NYK'',
        ''OKC'', ''ORL'', ''PHI'', ''PHX'', ''POR'', ''SAC'', ''SAS'', ''TOR'', ''UTA'', ''WAS'']),
      (''nfl'',
       [''Cardinals'', ''Falcons'', ''Ravens'', ''Bills'', ''Panthers'', ''Bears'', ''Bengals'',
        ''Browns'', ''Cowboys'', ''Broncos'', ''Lions'', ''Packers'', ''Texans'', ''Colts'',
        ''Jaguars'', ''Chiefs'', ''Raiders'', ''Chargers'', ''Rams'', ''Dolphins'', ''Vikings'',
        ''Patriots'', ''Saints'', ''Giants'', ''Jets'', ''Eagles'', ''Steelers'', ''49ers'',
        ''Seahawks'', ''Buccaneers'', ''Titans'', ''Commanders'',
        ''ARI'', ''ATL'', ''BAL'', ''BUF'', ''CAR'', ''CHI'', ''CIN'', ''CLE'', ''DAL'', ''DEN'',
        ''DET'', ''GB'', ''HOU'', ''IND'', ''JAX'', ''KC'', ''LV'', ''LAC'', ''LAR'', ''MIA'',
        ''MIN'', ''NE'', ''NO'', ''NYG'', ''NYJ'', ''PHI'', ''PIT'', ''SF'', ''TEN'', ''WAS'']),
      (''nhl'',
       [''Ducks'', ''Coyotes'', ''Bruins'', ''Sabres'', ''Flames'', ''Hurricanes'',
        ''Blackhawks'', ''Avalanche'', ''Blue Jackets'', ''Stars'', ''Red Wings'',
        ''Oilers'', ''Panthers'', ''Kings'', ''Wild'', ''Canadiens'', ''Predators'',
        ''Devils'', ''Islanders'', ''Rangers'', ''Senators'', ''Flyers'', ''Penguins'',
        ''Sharks'', ''Kraken'', ''Blues'', ''Lightning'', ''Maple Leafs'', ''Canucks'',
        ''Golden Knights'', ''Capitals'', ''Jets'',
        ''ANA'', ''ARI'', ''BOS'', ''BUF'', ''CGY'', ''CAR'', ''CHI'', ''COL'', ''CBJ'', ''DAL'',
        ''DET'', ''EDM'', ''FLA'', ''LAK'', ''MIN'', ''MTL'', ''NSH'', ''NJD'', ''NYI'', ''NYR'',
        ''OTT'', ''PHI'', ''PIT'', ''SJS'', ''STL'', ''TBL'', ''TOR'', ''VAN'', ''VGK'',
        ''WSH'', ''WPG''])]"

text \<open>
  Lines 420-421 and 494-495: some team of the list, in upper case, occurs in the title
  in upper case.
\<close>

definition title_has_team :: "string list \<Rightarrow> game \<Rightarrow> bool" where
  "title_has_team teams g = list_ex (\<lambda>t. contains (upper t) (upper (title g))) teams"

definition filter_mlb_games :: "game list \<Rightarrow> game list" where
  "filter_mlb_games games = filter (title_has_team mlb_teams) games"

definition filter_games_by_sport :: "game list \<Rightarrow> string \<Rightarrow> game list" where
  "filter_games_by_sport games sport =
     (case map_of team_lists sport of
        None \<Rightarrow> []
      | Some sport_teams \<Rightarrow> filter (title_has_team sport_teams) games)"

definition with_diff :: "bet_with_context \<Rightarrow> bet_with_context" where
  "with_diff b =
     (let handle = parse_percentage (handle_pct b);
          bets = parse_percentage (bets_pct b)
      in b\<lparr>handle_vs_bets_diff := Some (handle - bets)\<rparr>)"


definition biggest_square_bets_by_sport :: "game list \<Rightarrow> string \<Rightarrow> int \<Rightarrow> py_error + bet_with_context list" where
  "biggest_square_bets_by_sport games sport limit =
     (let sport_games = filter_games_by_sport games sport
      in if sport_games = [] then Inr []
         else
           (let all_bets = extract_all_bets sport_games;
                square_bets = foldl square_step [] all_bets
            in case sorted_by_item square_score square_bets of
                 Inl e \<Rightarrow> Inl e
               | Inr sorted_square \<Rightarrow> Inr (slice_to sorted_square limit)))"


text \<open>
  What the page loop's result says about its last page, for each of the four
  ways it stops: page \<open>n\<close> was the last one requested, and \<open>page_ok\<close> holds of a page
  that was fetched and held at least one game block.
\<close>

definition page_ok :: "fetcher \<Rightarrow> nat \<Rightarrow> string \<Rightarrow> nat \<Rightarrow> bool" where
  "page_ok fetch sid dr p = (case fetch (page_url sid dr p) of Inl e \<Rightarrow> False | Inr games \<Rightarrow> games \<noteq> [])"

definition halted_at :: "fetcher \<Rightarrow> nat \<Rightarrow> string \<Rightarrow> nat \<Rightarrow> stop \<times> scraper \<Rightarrow> bool" where
  "halted_at fetch sid dr n r =
     (case fst r of
        Error_scraping \<Rightarrow> isl (fetch (page_url sid dr n))
      | No_games_found \<Rightarrow> fetch (page_url sid dr n) = Inr []
      | No_new_games_found \<Rightarrow>
          (case fetch (page_url sid dr n) of
             Inl e \<Rightarrow> False
           | Inr games \<Rightarrow> games \<noteq> [] \<and>
               list_all (\<lambda>soup. add_game dr ([], all_games_data (snd r)) soup = ([], all_games_data (snd r))) games)
      | Reached_maximum_page_limit \<Rightarrow> n = 20 \<and> page_ok fetch sid dr n)"




definition failing_fetch :: fetcher where
  "failing_fetch u = Inl RequestException"

text \<open>The tokens of one team list that another does not have, in the order of the first.\<close>

definition extra_tokens :: "string list \<Rightarrow> string list \<Rightarrow> string list" where
  "extra_tokens broad narrow = filter (\<lambda>t. t \<notin> set narrow) broad"

text \<open>Test data: a game of another sport whose title holds the letters SEA.\<close>

definition seahawks_jets :: game where
  "seahawks_jets =
     \<lparr>title = ''Seahawks @ Jets'', time = ''1:00 PM'', away_team = ''Seahawks'',
      home_team = ''Jets'', markets = [], scraped_date_range = Some ''today''\<rparr>"


definition diff_of :: "bet_with_context \<Rightarrow> real" where
  "diff_of b = parse_percentage (handle_pct b) - parse_percentage (bets_pct b)"


section \<open>The cache: freshness\<close>

text \<open>
  C6. A snapshot captured at \<open>t\<close> is expired at \<open>now\<close> exactly when \<open>now - t\<close> is
  more than 30 minutes: at an age of 30 minutes it is fresh, one second later it is
  expired.
\<close>

theorem cache_expired_iff:
  "is_cache_expired now \<lparr>cached_games_data = gs, cache_timestamp = Some t\<rparr>
     = (now - t > 30 * 60 * 1000000)
   \<and> is_cache_expired (t + timedelta 30 0) \<lparr>cached_games_data = gs, cache_timestamp = Some t\<rparr>
     = False
   \<and> is_cache_expired (t + timedelta 30 1) \<lparr>cached_games_data = gs, cache_timestamp = Some t\<rparr>
     = True"
  by (simp add: is_cache_expired_def CACHE_DURATION_MINUTES_def timedelta_def)

section \<open>The scraper: no game twice\<close>

declare scrape_pages.simps [simp del]










section \<open>The scraper: pagination\<close>

lemma foldl_add_game_none:
  "fst (foldl (add_game dr) (pg, al) soups) = [] \<Longrightarrow>
   foldl (add_game dr) (pg, al) soups = ([], al) \<and> list_all (\<lambda>soup. add_game dr ([], al) soup = ([], al)) soups"
proof (induction soups arbitrary: pg al)
  case Nil
  then show ?case by simp
next
  case (Cons soup soups)
  obtain pg' al' where st: "add_game dr (pg, al) soup = (pg', al')" by (cases "add_game dr (pg, al) soup")
  from Cons.prems st have f: "fst (foldl (add_game dr) (pg', al') soups) = []" by simp
  from Cons.IH[OF f] have r: "foldl (add_game dr) (pg', al') soups = ([], al')"
    and l: "list_all (\<lambda>soup. add_game dr ([], al') soup = ([], al')) soups" by simp_all
  have grow: "\<exists>ys. fst (foldl (add_game dr) (p, a) ss) = p @ ys" for p a ss
  proof (induction ss arbitrary: p a)
    case Nil then show ?case by simp
  next
    case (Cons x xs)
    obtain p' a' where s: "add_game dr (p, a) x = (p', a')" by (cases "add_game dr (p, a) x")
    then have "\<exists>zs. p' = p @ zs"
      by (auto simp: add_game_def Let_def split: option.splits if_splits)
    with Cons[of p' a'] s show ?case by auto
  qed
  from grow[of pg' al' soups] f have "pg' = []" by auto
  with st have "pg = [] \<and> al' = al"
    by (auto simp: add_game_def Let_def split: option.splits if_splits)
  with st r l \<open>pg' = []\<close> show ?case by simp
qed

lemma scrape_pages_trace:
  "page \<le> 20 \<Longrightarrow>
   \<exists>n. page \<le> n \<and> n \<le> 20 \<and>
       requested (snd (scrape_pages fetch sid dr page s)) = requested s @ map (page_url sid dr) [page..<Suc n] \<and>
       list_all (page_ok fetch sid dr) [page..<n] \<and>
       halted_at fetch sid dr n (scrape_pages fetch sid dr page s)"
proof (induction fetch sid dr page s rule: scrape_pages.induct)
  case (1 fetch sid dr page s)
  let ?u = "page_url sid dr page"
  let ?s1 = "s\<lparr>requested := requested s @ [?u]\<rparr>"
  show ?case
  proof (cases "fetch ?u")
    case (Inl e)
    then have "scrape_pages fetch sid dr page s = (Error_scraping, ?s1)"
      by (subst scrape_pages.simps) simp
    then show ?thesis using Inl "1.prems"
      by (intro exI[of _ page]) (simp add: halted_at_def)
  next
    case (Inr games)
    let ?acc = "foldl (add_game dr) ([], all_games_data ?s1) games"
    let ?s2 = "?s1\<lparr>all_games_data := snd ?acc\<rparr>"
    show ?thesis
    proof (cases "games = []")
      case True
      then have "scrape_pages fetch sid dr page s = (No_games_found, ?s1)"
        using Inr by (subst scrape_pages.simps) simp
      then show ?thesis using Inr True "1.prems"
        by (intro exI[of _ page]) (simp add: halted_at_def)
    next
      case ne: False
      show ?thesis
      proof (cases "fst ?acc = []")
        case True
        then have r: "scrape_pages fetch sid dr page s = (No_new_games_found, ?s2)"
          using Inr ne by (subst scrape_pages.simps) (simp add: Let_def)
        from True have "fst (foldl (add_game dr) ([], all_games_data s) games) = []" by simp
        from foldl_add_game_none[OF this]
        have "snd ?acc = all_games_data s"
          and "list_all (\<lambda>soup. add_game dr ([], all_games_data s) soup = ([], all_games_data s)) games"
          by simp_all
        then show ?thesis using r Inr ne "1.prems"
          by (intro exI[of _ page]) (simp add: halted_at_def)
      next
        case new: False
        show ?thesis
        proof (cases "page + 1 > 20")
          case True
          then have r: "scrape_pages fetch sid dr page s = (Reached_maximum_page_limit, ?s2)"
            using Inr ne new by (subst scrape_pages.simps) (simp add: Let_def)
          from True "1.prems" have "page = 20" by simp
          then show ?thesis using r Inr ne
            by (intro exI[of _ page]) (simp add: halted_at_def page_ok_def)
        next
          case False
          then have r: "scrape_pages fetch sid dr page s = scrape_pages fetch sid dr (page + 1) ?s2"
            using Inr ne new by (subst scrape_pages.simps) (simp add: Let_def)
          from False have le: "page + 1 \<le> 20" by simp
          from "1.IH"[OF refl Inr ne refl refl new False le]
          obtain n where n: "page + 1 \<le> n" "n \<le> 20"
            "requested (snd (scrape_pages fetch sid dr (page + 1) ?s2))
               = requested ?s2 @ map (page_url sid dr) [page + 1..<Suc n]"
            "list_all (page_ok fetch sid dr) [page + 1..<n]"
            "halted_at fetch sid dr n (scrape_pages fetch sid dr (page + 1) ?s2)"
            by blast
          have ok: "page_ok fetch sid dr page" using Inr ne by (simp add: page_ok_def)
          have up: "[page..<Suc n] = page # [page + 1..<Suc n]" "[page..<n] = page # [page + 1..<n]"
            using n(1) by (simp_all add: upt_conv_Cons)
          show ?thesis using n ok unfolding r
            by (intro exI[of _ n]) (simp add: up)
        qed
      qed
    qed
  qed
qed





section \<open>The cache: refresh\<close>

text \<open>A run of the scraper sends at least one request.\<close>

lemma scrape_range_requested1:
  "requested (scrape_range fetch sid s dr) \<noteq> []"
proof -
  from scrape_pages_trace[of 1 fetch sid dr s] obtain n where "1 \<le> n"
    "requested (snd (scrape_pages fetch sid dr 1 s)) = requested s @ map (page_url sid dr) [1..<Suc n]"
    by auto
  then show ?thesis unfolding scrape_range_def by auto
qed

lemma scrape_range_requested:
  "requested s \<noteq> [] \<Longrightarrow> requested (foldl (scrape_range fetch sid) s drs) \<noteq> []"
  by (induction drs arbitrary: s) (simp_all add: scrape_range_requested1)

lemma scrape_sport_requested:
  "requested s \<noteq> [] \<Longrightarrow> requested (foldl (scrape_sport fetch) s cfgs) \<noteq> []"
proof (induction cfgs arbitrary: s)
  case Nil then show ?case by simp
next
  case (Cons c cfgs)
  have "requested (scrape_sport fetch s c) \<noteq> []"
    using Cons.prems by (cases c) (simp add: scrape_sport_def scrape_range_requested)
  then show ?case using Cons.IH by simp
qed

lemma scrape_run_requested: "requested (scrape_run fetch) \<noteq> []"
proof -
  let ?s0 = "\<lparr>all_games_data = [], requested = []\<rparr>"
  let ?c0 = "(''all_sports'', 0::nat, [''today'', ''tomorrow''])"
  let ?c1 = "(''mlb'', 84240::nat, [''today'', ''tomorrow''])"
  obtain rest where cfg: "sport_configs = ?c0 # ?c1 # rest"
    by (simp add: sport_configs_def)
  have s0: "scrape_sport fetch ?s0 ?c0 = ?s0" by (simp add: scrape_sport_def)
  have "requested (scrape_range fetch 84240 ?s0 ''today'') \<noteq> []"
    by (rule scrape_range_requested1)
  then have "requested (foldl (scrape_range fetch 84240) (scrape_range fetch 84240 ?s0 ''today'') [''tomorrow'']) \<noteq> []"
    by (rule scrape_range_requested)
  then have s1: "requested (scrape_sport fetch ?s0 ?c1) \<noteq> []"
    by (simp add: scrape_sport_def)
  have "scrape_run fetch = foldl (scrape_sport fetch) (scrape_sport fetch ?s0 ?c1) rest"
    unfolding scrape_run_def cfg by (simp only: foldl_Cons s0)
  then show ?thesis using scrape_sport_requested[OF s1] by simp
qed

text \<open>
  C10. With an empty cached list every call runs the scraper, returns its games and
  stores them with the new timestamp, whatever the old timestamp was. A call sends no
  request exactly when the cached list is non-empty and not expired, so an empty list is
  never an answer from the cache: a call that returns no game has sent requests.
\<close>

theorem empty_cache_always_refreshes:
  "(cached_games_data c = [] \<longrightarrow>
      get_cached_or_fresh_data fetch now now' c =
        (scrape_betting_splits fetch,
         \<lparr>cached_games_data = scrape_betting_splits fetch, cache_timestamp = Some now'\<rparr>,
         requested (scrape_run fetch)))
   \<and> requested (scrape_run fetch) \<noteq> []
   \<and> (snd (snd (get_cached_or_fresh_data fetch now now' c)) = [])
       = (cached_games_data c \<noteq> [] \<and> \<not> is_cache_expired now c)
   \<and> (fst (get_cached_or_fresh_data fetch now now' c) = [] \<longrightarrow>
        snd (snd (get_cached_or_fresh_data fetch now now' c)) \<noteq> [])"
  using scrape_run_requested[of fetch]
  by (auto simp: get_cached_or_fresh_data_def Let_def scrape_betting_splits_def)

text \<open>
  An empty list cached one second ago is not expired, and the call scrapes all the same
  (here with every request failing, so that the new list is empty again).
\<close>

lemma failing_pages:
  "all_games_data (snd (scrape_pages failing_fetch sid dr page s)) = all_games_data s"
  by (subst scrape_pages.simps) (simp add: failing_fetch_def)

lemma failing_ranges:
  "all_games_data (foldl (scrape_range failing_fetch sid) s drs) = all_games_data s"
  by (induction drs arbitrary: s) (simp_all add: scrape_range_def failing_pages)

lemma failing_sports:
  "all_games_data (foldl (scrape_sport failing_fetch) s cfgs) = all_games_data s"
proof (induction cfgs arbitrary: s)
  case Nil then show ?case by simp
next
  case (Cons c cfgs)
  have "all_games_data (scrape_sport failing_fetch s c) = all_games_data s"
    by (cases c) (simp add: scrape_sport_def failing_ranges)
  then show ?case using Cons.IH by simp
qed

lemma failing_run: "scrape_betting_splits failing_fetch = []"
  by (simp add: scrape_betting_splits_def scrape_run_def failing_sports)

theorem empty_cache_always_refreshes_witness:
  "cached_games_data \<lparr>cached_games_data = [], cache_timestamp = Some 0\<rparr> = []
   \<and> \<not> is_cache_expired 1000000 \<lparr>cached_games_data = [], cache_timestamp = Some 0\<rparr>
   \<and> get_cached_or_fresh_data failing_fetch 1000000 2000000 \<lparr>cached_games_data = [], cache_timestamp = Some 0\<rparr>
       = ([], \<lparr>cached_games_data = [], cache_timestamp = Some 2000000\<rparr>, requested (scrape_run failing_fetch))
   \<and> snd (snd (get_cached_or_fresh_data failing_fetch 1000000 2000000
                   \<lparr>cached_games_data = [], cache_timestamp = Some 0\<rparr>)) \<noteq> []"
  using empty_cache_always_refreshes[of "\<lparr>cached_games_data = [], cache_timestamp = Some 0\<rparr>"
          failing_fetch 1000000 2000000]
  by (simp add: failing_run is_cache_expired_def CACHE_DURATION_MINUTES_def timedelta_def)

section \<open>Sport filters: the two MLB lists\<close>

lemma mlb_roster:
  "map_of team_lists ''mlb'' = Some (filter (\<lambda>t. t \<notin> set [''Indians'', ''SEA'', ''NY'']) mlb_teams)"
  by code_simp

lemma title_has_team_mono:
  "set narrow \<subseteq> set broad \<Longrightarrow> title_has_team narrow g \<Longrightarrow> title_has_team broad g"
  by (auto simp: title_has_team_def list_ex_iff)

lemma title_has_team_upper:
  "title_has_team teams g = list_ex (\<lambda>t. contains t (upper (title g))) (map upper teams)"
  by (simp add: title_has_team_def list_ex_iff)

lemma seahawks_jets_upper: "upper (title seahawks_jets) = ''SEAHAWKS @ JETS''"
  by code_simp

lemma seahawks_jets_not_in_roster:
  "\<not> title_has_team (filter (\<lambda>t. t \<notin> set [''Indians'', ''SEA'', ''NY'']) mlb_teams) seahawks_jets"
  unfolding title_has_team_upper seahawks_jets_upper by code_simp

lemma seahawks_jets_in_mlb_teams: "title_has_team mlb_teams seahawks_jets"
proof -
  have "''SEA'' \<in> set mlb_teams" by (simp add: mlb_teams_def)
  moreover have "contains (upper ''SEA'') (upper (title seahawks_jets))"
    unfolding seahawks_jets_upper by code_simp
  ultimately show ?thesis unfolding title_has_team_def list_ex_iff by blast
qed

text \<open>
  C7, as the code has it. The list of \<open>filter_mlb_games\<close> is the \<open>mlb\<close> list of
  \<open>filter_games_by_sport\<close> with three more tokens, \<open>Indians\<close>, \<open>SEA\<close> and \<open>NY\<close>
  (one former franchise name and two abbreviations); so every game that
  \<open>filter_games_by_sport\<close> returns for \<open>mlb\<close> is returned by \<open>filter_mlb_games\<close>.
\<close>

theorem mlb_filter_broader:
  "map_of team_lists ''mlb'' = Some (filter (\<lambda>t. t \<notin> set [''Indians'', ''SEA'', ''NY'']) mlb_teams)
   \<and> filter (\<lambda>t. t \<in> set [''Indians'', ''SEA'', ''NY'']) mlb_teams = [''Indians'', ''SEA'', ''NY'']
   \<and> set (filter_games_by_sport games ''mlb'') \<subseteq> set (filter_mlb_games games)"
proof -
  let ?roster = "filter (\<lambda>t. t \<notin> set [''Indians'', ''SEA'', ''NY'']) mlb_teams"
  have sub: "set ?roster \<subseteq> set mlb_teams" by auto
  have "set (filter (title_has_team ?roster) games) \<subseteq> set (filter (title_has_team mlb_teams) games)"
    using title_has_team_mono[OF sub] by auto
  then have "set (filter_games_by_sport games ''mlb'') \<subseteq> set (filter_mlb_games games)"
    by (simp only: filter_games_by_sport_def filter_mlb_games_def mlb_roster option.case)
  moreover have "filter (\<lambda>t. t \<in> set [''Indians'', ''SEA'', ''NY'']) mlb_teams = [''Indians'', ''SEA'', ''NY'']"
    by code_simp
  ultimately show ?thesis using mlb_roster by blast
qed

text \<open>
  A game that only the broader list keeps: \<open>SEA\<close> occurs in the title of a football
  game.
\<close>

theorem mlb_filter_broader_witness:
  "set (filter_games_by_sport [seahawks_jets] ''mlb'') \<subseteq> set (filter_mlb_games [seahawks_jets])
   \<and> filter_games_by_sport [seahawks_jets] ''mlb'' = []
   \<and> filter_mlb_games [seahawks_jets] = [seahawks_jets]"
proof -
  have "filter_games_by_sport [seahawks_jets] ''mlb'' = []"
    by (simp only: filter_games_by_sport_def mlb_roster option.case filter.simps
          seahawks_jets_not_in_roster if_False)
  moreover have "filter_mlb_games [seahawks_jets] = [seahawks_jets]"
    by (simp add: filter_mlb_games_def seahawks_jets_in_mlb_teams)
  ultimately show ?thesis using mlb_filter_broader[of "[seahawks_jets]"] by simp
qed

text \<open>
  C7 as stated fails: the tokens that only the list of \<open>filter_mlb_games\<close> has are
  three, not two.
\<close>

theorem mlb_extra_tokens_counterexample:
  "(case map_of team_lists ''mlb'' of
      None \<Rightarrow> False
    | Some roster \<Rightarrow> extra_tokens mlb_teams roster = [''Indians'', ''SEA'', ''NY'']
                     \<and> length (extra_tokens mlb_teams roster) \<noteq> 2)"
  by code_simp

section \<open>Analytics: ranking\<close>


lemma set_sorted_reverse [simp]: "set (sorted_reverse key xs) = set xs"
  by (simp add: sorted_reverse_def)

lemma length_sorted_reverse [simp]: "length (sorted_reverse key xs) = length xs"
  by (simp add: sorted_reverse_def)

lemma slice_to_nat: "0 \<le> n \<Longrightarrow> slice_to xs n = take (nat n) xs"
  by (simp add: slice_to_def)




lemma with_diff_fields [simp]:
  "odds (with_diff b) = odds b" "handle_pct (with_diff b) = handle_pct b"
  "bets_pct (with_diff b) = bets_pct b" "market_type (with_diff b) = market_type b"
  "game_title (with_diff b) = game_title b"
  "handle_vs_bets_diff (with_diff b) = Some (diff_of b)"
  by (simp_all add: with_diff_def diff_of_def Let_def)

lemma diff_of_with_diff [simp]: "diff_of (with_diff b) = diff_of b"
  by (simp add: diff_of_def)















end
